theory Spec2Isabelle
  imports Main "HOL-Library.AList"
begin

section \<open>Nikola's command-line front end (\<^verbatim>\<open>nikola/__main__.py\<close>)\<close>

text \<open>
  The module has one entry point, \<^verbatim>\<open>main\<close>, the classes \<^verbatim>\<open>Help\<close>, \<^verbatim>\<open>Build\<close>,
  \<^verbatim>\<open>Clean\<close>, \<^verbatim>\<open>NikolaTaskLoader\<close> and \<^verbatim>\<open>DoitNikola\<close>, and the module-level dictionary
  \<^verbatim>\<open>config\<close>. Command-line tokens are text (\<open>string\<close>); \<^verbatim>\<open>sys_decode\<close> returns text
  unchanged. Everything the module only calls (the doit engine, the \<^verbatim>\<open>Nikola\<close> site object,
  \<^verbatim>\<open>get_root_dir\<close>, \<^verbatim>\<open>req_missing\<close>, the module loader, freezegun) is a field of the
  environment record below. Log calls and other effects are returned as a list of events, in
  the order in which the code performs them.
\<close>

subsection \<open>Values and errors\<close>

datatype pyval = PStr string | PBool bool | PObj nat

type_synonym config = "(string \<times> pyval) list"

datatype error =
    SystemExit int
  | KeyboardInterrupt
  | UnboundLocalError string
  | IndexError
  | IOError string
  | OSError string
  | TypeError
  | MissingDependencies "string list"

datatype fnode = File | Dir

text \<open>A node of the file system is addressed by the names on the way from the root
  directory; the empty list is the root.\<close>

type_synonym path = "string list"

type_synonym filesystem = "path \<Rightarrow> fnode option"

text \<open>
  What executing the configuration file gives: the module's dictionary; an exception that is
  an instance of \<^verbatim>\<open>Exception\<close>, with the text \<^verbatim>\<open>traceback.format_exc(0)\<close> gives for it;
  or one of the exceptions outside \<^verbatim>\<open>Exception\<close>, \<^verbatim>\<open>SystemExit\<close> (the file calls
  \<^verbatim>\<open>sys.exit\<close>) and \<^verbatim>\<open>KeyboardInterrupt\<close>.
\<close>

datatype load_result =
    Module config
  | Raises string
  | RaisesSystemExit int
  | RaisesKeyboardInterrupt

datatype event =
    SetColorful bool
  | LogNotice string
  | LogInfo string
  | LogWarn string
  | LogError string
  | PushStrictHandler
  | PushNullHandler
  | Chdir string
  | LoadSource string
  | FreezeStart
  | FreezeStop
  | ReqMissing "string list" string
  | WriteFile string string
  | SetConfig string pyval
  | ConstructSite config
  | EngineRun "string list"
  | Rmtree string
  | GenericClean bool
  | GenTasks string string
  | SignalInitialized

subsection \<open>The site object and the doit application\<close>

text \<open>
  Of the \<^verbatim>\<open>Nikola\<close> object the module reads \<^verbatim>\<open>configured\<close>, \<^verbatim>\<open>invariant\<close> and the
  dictionary \<^verbatim>\<open>_commands\<close> (plugin commands by name; all of them are instances of
  \<^verbatim>\<open>plugin_categories.Command\<close>, kept here with their purpose line).
\<close>

record site =
  configured :: bool
  invariant :: bool
  commands :: "(string \<times> string) list"

record nikola_task_loader =
  tl_nikola :: site
  tl_quiet :: bool

record doit_nikola =
  nikola :: site
  task_loader :: nikola_task_loader

definition NikolaTaskLoader_init :: "site \<Rightarrow> bool \<Rightarrow> nikola_task_loader" where
  "NikolaTaskLoader_init n q = \<lparr>tl_nikola = n, tl_quiet = q\<rparr>"

definition DoitNikola_init :: "site \<Rightarrow> bool \<Rightarrow> doit_nikola" where
  "DoitNikola_init n q = \<lparr>nikola = n, task_loader = NikolaTaskLoader_init n q\<rparr>"

text \<open>
  Command classes. \<open>DoitHelp\<close>, \<open>DoitRun\<close>, \<open>DoitClean\<close>, \<open>DoitAuto\<close> and
  \<open>DoitOther name\<close> are the engine's own classes; \<open>Help\<close>, \<open>Build\<close> and \<open>Clean\<close> are the
  subclasses this module defines. A registry entry is an instance of one of these classes or a
  plugin command of the site.
\<close>

datatype cmd_class =
    DoitHelp | DoitRun | DoitClean | DoitAuto | DoitOther string
  | Help | Build | Clean

datatype command = Builtin cmd_class | PluginCommand string

type_synonym taskdict = string

datatype task = Task string

datatype doit_value =
    VInt int
  | VStr string
  | VStrList "string list"
  | ExecutedOnlyReporter
  | Stderr

record env =
  py3 :: bool
  stderr_isatty :: bool
  os_name :: string
  sys_argv :: "string list"
  get_root_dir :: "string \<Rightarrow> filesystem \<Rightarrow> string option"
  exec_conf :: "path \<Rightarrow> load_result"
  load_error :: "string \<Rightarrow> string"
  freezegun_available :: bool
  req_missing_raises :: bool
  Nikola :: "config \<Rightarrow> site"
  DoitMain_DOIT_CMDS :: "cmd_class list"
  DoitMain_run :: "doit_nikola \<Rightarrow> string list \<Rightarrow> filesystem \<Rightarrow> int \<times> site \<times> filesystem"
  DoitClean_clean_tasks :: "task list \<Rightarrow> bool \<Rightarrow> filesystem \<Rightarrow> filesystem"
  gen_tasks :: "site \<Rightarrow> string \<Rightarrow> string \<Rightarrow> string \<Rightarrow> taskdict list"
  generate_tasks :: "string \<Rightarrow> taskdict list \<Rightarrow> task list"

subsection \<open>\<^verbatim>\<open>DoitNikola.get_commands\<close>\<close>

text \<open>
  A command's registry key is its \<^verbatim>\<open>name\<close>: the lower-cased class name, except for
  \<^verbatim>\<open>DoitAuto\<close>, whose class attribute the module sets to \<^verbatim>\<open>doit_auto\<close>.
\<close>

fun cmd_name :: "cmd_class \<Rightarrow> string" where
  "cmd_name DoitHelp = ''help''"
| "cmd_name DoitRun = ''run''"
| "cmd_name DoitClean = ''clean''"
| "cmd_name DoitAuto = ''doit_auto''"
| "cmd_name (DoitOther n) = n"
| "cmd_name Help = ''help''"
| "cmd_name Build = ''build''"
| "cmd_name Clean = ''clean''"

definition DOIT_CMDS :: "env \<Rightarrow> cmd_class list" where
  "DOIT_CMDS e = DoitMain_DOIT_CMDS e @ [Help, Build, Clean, DoitAuto]"

text \<open>\<^verbatim>\<open>DoitMain.get_commands\<close>: one instance per class, stored under its name, later entries
  replacing earlier ones.\<close>

definition DoitMain_get_commands :: "env \<Rightarrow> string \<Rightarrow> command option" where
  "DoitMain_get_commands e =
     foldl (\<lambda>cmds c. cmds(cmd_name c \<mapsto> Builtin c)) Map.empty (DOIT_CMDS e)"

definition get_commands :: "env \<Rightarrow> doit_nikola \<Rightarrow> string \<Rightarrow> command option" where
  "get_commands e self =
     foldl (\<lambda>cmds (name, cmd). cmds(name \<mapsto> PluginCommand cmd))
       (DoitMain_get_commands e) (commands (nikola self))"

text \<open>\<^verbatim>\<open>isinstance(cmd, (Command, Help))\<close>: plugin commands and this module's \<^verbatim>\<open>Help\<close>.\<close>

fun isinstance_Command_Help :: "command \<Rightarrow> bool" where
  "isinstance_Command_Help (PluginCommand _) = True"
| "isinstance_Command_Help (Builtin Help) = True"
| "isinstance_Command_Help (Builtin _) = False"

subsection \<open>\<^verbatim>\<open>DoitNikola.run\<close>\<close>

text \<open>
  \<^verbatim>\<open>process_args\<close> is inherited from the engine's \<^verbatim>\<open>DoitMain\<close>: it walks the tokens in
  order, takes a token that does not start with \<^verbatim>\<open>-\<close> and contains \<^verbatim>\<open>=\<close> as a variable
  assignment and returns the other tokens. It reads \<^verbatim>\<open>arg[0]\<close>, which raises
  \<^verbatim>\<open>IndexError\<close> on an empty token.
\<close>

fun process_args :: "string list \<Rightarrow> error + string list" where
  "process_args [] = Inr []"
| "process_args (arg # rest) =
     (case arg of
        [] \<Rightarrow> Inl IndexError
      | c # _ \<Rightarrow>
          (case process_args rest of
             Inl err \<Rightarrow> Inl err
           | Inr args_no_vars \<Rightarrow>
               if c \<noteq> CHR ''-'' \<and> CHR ''='' \<in> set arg then Inr args_no_vars
               else Inr (arg # args_no_vars)))"

definition sys_decode :: "string \<Rightarrow> string" where
  "sys_decode thing = thing"

definition help_spelling :: "string \<Rightarrow> bool" where
  "help_spelling arg \<longleftrightarrow> arg = ''--help'' \<or> arg = ''-h''"

definition version_spelling :: "string \<Rightarrow> bool" where
  "version_spelling arg \<longleftrightarrow> arg = ''--version'' \<or> arg = ''-V''"

text \<open>The three rewrites of the pair \<^verbatim>\<open>(cmd_args, args)\<close>, lines 272 to 292, one
  \<^verbatim>\<open>if\<close> statement each.\<close>

definition rewrite_empty :: "string list \<times> string list \<Rightarrow> string list \<times> string list" where
  "rewrite_empty p =
     (case p of (cmd_args, args) \<Rightarrow>
        if length args = 0 then ([''help''], [''help'']) else (cmd_args, args))"

definition rewrite_help :: "string list \<times> string list \<Rightarrow> string list \<times> string list" where
  "rewrite_help p =
     (case p of (cmd_args, args) \<Rightarrow>
        if ''--help'' \<in> set args \<or> ''-h'' \<in> set args then
          (filter (\<lambda>arg. \<not> help_spelling arg) (''help'' # cmd_args),
           filter (\<lambda>arg. \<not> help_spelling arg) (''help'' # args))
        else (cmd_args, args))"

definition rewrite_version :: "string list \<times> string list \<Rightarrow> string list \<times> string list" where
  "rewrite_version p =
     (case p of (cmd_args, args) \<Rightarrow>
        if \<exists>arg \<in> set args. version_spelling arg then ([''version''], [''version''])
        else (cmd_args, args))"

definition resolve :: "string list \<Rightarrow> error + string list \<times> string list" where
  "resolve cmd_args =
     (case process_args cmd_args of
        Inl err \<Rightarrow> Inl err
      | Inr args \<Rightarrow>
          Inr (rewrite_version (rewrite_help (rewrite_empty (cmd_args, map sys_decode args)))))"

text \<open>
  The result of \<^verbatim>\<open>run\<close>: the exit code or the exception, the events of this layer, and the
  site object and file system as the engine leaves them. \<open>EngineRun\<close> marks the call of
  \<^verbatim>\<open>DoitMain.run\<close>, the only place from which a command is executed and the task loader
  is asked for tasks.
\<close>

definition super_run ::
  "env \<Rightarrow> doit_nikola \<Rightarrow> string list \<Rightarrow> filesystem \<Rightarrow>
     (error + int) \<times> event list \<times> site \<times> filesystem" where
  "super_run e self cmd_args fs =
     (case DoitMain_run e self cmd_args fs of
        (code, site', fs') \<Rightarrow> (Inr code, [EngineRun cmd_args], site', fs'))"

definition run ::
  "env \<Rightarrow> doit_nikola \<Rightarrow> string list \<Rightarrow> filesystem \<Rightarrow>
     (error + int) \<times> event list \<times> site \<times> filesystem" where
  "run e self cmd_args fs =
     (let sub_cmds = get_commands e self in
      case resolve cmd_args of
        Inl err \<Rightarrow> (Inl err, [], nikola self, fs)
      | Inr (cmd_args', args) \<Rightarrow>
          (case args of
             [] \<Rightarrow> (Inl IndexError, [], nikola self, fs)
           | arg0 # _ \<Rightarrow>
               (case sub_cmds arg0 of
                  None \<Rightarrow>
                    (Inr 3, [LogError (''Unknown command '' @ arg0)], nikola self, fs)
                | Some cmd \<Rightarrow>
                    if \<not> isinstance_Command_Help cmd \<and> \<not> configured (nikola self) then
                      (Inr 3,
                       [LogError ''This command needs to run inside an existing Nikola site.''],
                       nikola self, fs)
                    else super_run e self cmd_args' fs)))"

subsection \<open>Process state and paths\<close>

text \<open>
  The state \<^verbatim>\<open>main\<close> and \<^verbatim>\<open>Clean.clean_tasks\<close> share: the working directory, the file
  system (path to node) and the module-level dictionary \<^verbatim>\<open>config\<close>, a list of
  key and value pairs with \<open>map_of\<close> as lookup and \<open>AList.update\<close> as item assignment.
\<close>

record world =
  w_cwd :: string
  w_fs :: filesystem
  w_config :: config

text \<open>
  Names are resolved as a POSIX system does, on a tree of directories and regular files
  without symbolic links and with every permission granted. \<open>split_path\<close> is
  \<^verbatim>\<open>name.split('/')\<close>. \<open>walk\<close> follows the components from a directory: an empty
  component and \<^verbatim>\<open>.\<close> stay, \<^verbatim>\<open>..\<close> goes to the parent (the root is its own parent), any
  other component goes to the entry of that name; every component is looked up in a
  directory, and the node reached has to exist. So \<^verbatim>\<open>cache\<close>, \<^verbatim>\<open>cache/\<close>, \<^verbatim>\<open>./cache\<close>
  and \<^verbatim>\<open>output/../cache\<close> reach the same node, and \<^verbatim>\<open>conf.py/\<close> and
  \<^verbatim>\<open>missing/../cache\<close> reach none. The working directory is an absolute name.
\<close>

fun split_path :: "string \<Rightarrow> string list" where
  "split_path [] = [[]]"
| "split_path (c # cs) =
     (if c = CHR ''/'' then [] # split_path cs
      else (case split_path cs of [] \<Rightarrow> [[c]] | x # xs \<Rightarrow> (c # x) # xs))"

definition node :: "filesystem \<Rightarrow> path \<Rightarrow> fnode option" where
  "node f p = (if p = [] then Some Dir else f p)"

fun walk :: "filesystem \<Rightarrow> path \<Rightarrow> string list \<Rightarrow> path option" where
  "walk f cur [] = (if node f cur = None then None else Some cur)"
| "walk f cur (c # cs) =
     (if node f cur \<noteq> Some Dir then None
      else if c = [] \<or> c = ''.'' then walk f cur cs
      else if c = ''..'' then walk f (butlast cur) cs
      else walk f (cur @ [c]) cs)"

definition resolve_name :: "world \<Rightarrow> string \<Rightarrow> path option" where
  "resolve_name w name =
     (case name of
        [] \<Rightarrow> None
      | c # _ \<Rightarrow>
          if c = CHR ''/'' then walk (w_fs w) [] (split_path name)
          else (case walk (w_fs w) [] (split_path (w_cwd w)) of
                  None \<Rightarrow> None
                | Some d \<Rightarrow> walk (w_fs w) d (split_path name)))"

text \<open>\<^verbatim>\<open>os.path.exists\<close>\<close>

definition path_exists :: "world \<Rightarrow> string \<Rightarrow> bool" where
  "path_exists w name \<longleftrightarrow> resolve_name w name \<noteq> None"

subsection \<open>\<^verbatim>\<open>main\<close>, lines 63 to 100: flags, \<^verbatim>\<open>--conf=\<close> and the project root\<close>

text \<open>
  The literals \<^verbatim>\<open>b'build'\<close>, \<^verbatim>\<open>b'--strict'\<close>, \<^verbatim>\<open>b'-q'\<close>, \<^verbatim>\<open>b'--quiet'\<close> and
  \<^verbatim>\<open>b'--invariant'\<close> are byte strings (the module imports \<^verbatim>\<open>unicode_literals\<close>, so
  only they carry the prefix). Under Python 2 a token is equal to the byte string with the
  same ASCII characters. Under Python 3, which the module supports (it branches on
  \<^verbatim>\<open>sys.version_info[0] == 3\<close>), the tokens of \<^verbatim>\<open>sys.argv\<close> are \<^verbatim>\<open>str\<close>, and a \<^verbatim>\<open>str\<close>
  is never equal to a \<^verbatim>\<open>bytes\<close> object.
\<close>

definition bytes_eq :: "env \<Rightarrow> string \<Rightarrow> string \<Rightarrow> bool" where
  "bytes_eq e tok lit \<longleftrightarrow> \<not> py3 e \<and> tok = lit"

definition bytes_in :: "env \<Rightarrow> string \<Rightarrow> string list \<Rightarrow> bool" where
  "bytes_in e lit args \<longleftrightarrow> (\<exists>arg \<in> set args. bytes_eq e arg lit)"

text \<open>\<^verbatim>\<open>len(args) > 0 and args[0] == b'build'\<close>\<close>

definition first_is_build :: "env \<Rightarrow> string list \<Rightarrow> bool" where
  "first_is_build e args \<longleftrightarrow>
     (case args of [] \<Rightarrow> False | arg0 # _ \<Rightarrow> bytes_eq e arg0 ''build'')"

definition colorful_of :: "env \<Rightarrow> bool" where
  "colorful_of e \<longleftrightarrow> stderr_isatty e \<and> os_name e \<noteq> ''nt''"

definition strict_requested :: "env \<Rightarrow> string list \<Rightarrow> bool" where
  "strict_requested e args \<longleftrightarrow> first_is_build e args \<and> bytes_in e ''--strict'' args"

text \<open>Line 75: \<^verbatim>\<open>A and B and C or D\<close> groups as \<^verbatim>\<open>(A and B and C) or D\<close>.\<close>

definition quiet_requested :: "env \<Rightarrow> string list \<Rightarrow> bool" where
  "quiet_requested e args \<longleftrightarrow>
     (first_is_build e args \<and> bytes_in e ''-q'' args) \<or> bytes_in e ''--quiet'' args"

text \<open>The loop of lines 82 to 87: the first token that starts with \<^verbatim>\<open>--conf=\<close> gives the
  file name and is deleted from the list; later ones stay.\<close>

fun take_conf :: "string list \<Rightarrow> (string \<times> string list) option" where
  "take_conf [] = None"
| "take_conf (arg # rest) =
     (if take 7 arg = ''--conf='' then Some (drop 7 arg, rest)
      else (case take_conf rest of
              None \<Rightarrow> None
            | Some (conf_filename, rest') \<Rightarrow> Some (conf_filename, arg # rest')))"

definition conf_filename_of :: "string list \<Rightarrow> string" where
  "conf_filename_of args =
     (case take_conf args of None \<Rightarrow> ''conf.py'' | Some (conf_filename, rest) \<Rightarrow> conf_filename)"

definition args_without_conf :: "string list \<Rightarrow> string list" where
  "args_without_conf args =
     (case take_conf args of None \<Rightarrow> args | Some (conf_filename, rest) \<Rightarrow> rest)"

definition conf_events :: "string list \<Rightarrow> event list" where
  "conf_events args =
     (case take_conf args of
        None \<Rightarrow> []
      | Some (conf_filename, rest) \<Rightarrow>
          [LogInfo (''Using config file '' @ [CHR 0x27] @ conf_filename @ [CHR 0x27])])"

text \<open>Lines 63 to 78: the colour flag stored in \<^verbatim>\<open>ColorfulStderrHandler\<close>, then the notice
  and the handlers pushed for strict and quiet mode.\<close>

definition flag_events :: "env \<Rightarrow> string list \<Rightarrow> event list" where
  "flag_events e args =
     [SetColorful (colorful_of e)]
     @ (if strict_requested e args then [LogNotice ''Running in strict mode'', PushStrictHandler]
        else [])
     @ (if quiet_requested e args then [PushNullHandler] else [])"

text \<open>Lines 93 and 94: the first token, when there is one and it is not empty, is neither
  \<^verbatim>\<open>init\<close> nor \<^verbatim>\<open>version\<close> and does not start with \<^verbatim>\<open>import_\<close>.\<close>

definition needs_config_file_of :: "string list \<Rightarrow> bool" where
  "needs_config_file_of args \<longleftrightarrow>
     (case args of
        [] \<Rightarrow> False
      | argname # _ \<Rightarrow>
          argname \<noteq> [] \<and> argname \<notin> set [''init'', ''version'']
          \<and> take 7 argname \<noteq> ''import_'')"

definition enter_root :: "env \<Rightarrow> world \<Rightarrow> bool \<Rightarrow> world \<times> event list" where
  "enter_root e w needs_config_file =
     (if needs_config_file then
        (case get_root_dir e (w_cwd w) (w_fs w) of
           None \<Rightarrow> (w, [])
         | Some root \<Rightarrow> if root \<noteq> [] then (w\<lparr>w_cwd := root\<rparr>, [Chdir root]) else (w, []))
      else (w, []))"

subsection \<open>\<^verbatim>\<open>main\<close>, lines 102 to 117: loading the configuration file\<close>

text \<open>
  Lines 104 to 108 load the file under the name \<^verbatim>\<open>conf_filename\<close>: a regular file is
  executed; on a directory or a name that does not resolve the loader raises an
  \<^verbatim>\<open>IOError\<close>, an instance of \<^verbatim>\<open>Exception\<close>, whose traceback text is \<open>load_error\<close>.
\<close>

definition load_source :: "env \<Rightarrow> world \<Rightarrow> string \<Rightarrow> load_result" where
  "load_source e w conf_filename =
     (case resolve_name w conf_filename of
        None \<Rightarrow> Raises (load_error e conf_filename)
      | Some p \<Rightarrow>
          (case node (w_fs w) p of
             Some File \<Rightarrow> exec_conf e p
           | _ \<Rightarrow> Raises (load_error e conf_filename)))"

text \<open>
  The result is the dictionary that becomes \<^verbatim>\<open>config\<close>, or the exception that ends
  \<^verbatim>\<open>main\<close>. Line 110 is \<^verbatim>\<open>except Exception\<close>: \<^verbatim>\<open>SystemExit\<close> and
  \<^verbatim>\<open>KeyboardInterrupt\<close> raised by the file pass through it. The message of the error log
  is the file name in double quotes, \<^verbatim>\<open> cannot be parsed.\<close>, a line feed and
  \<^verbatim>\<open>traceback.format_exc(0)\<close>.
\<close>

definition load_config ::
  "env \<Rightarrow> world \<Rightarrow> string \<Rightarrow> bool \<Rightarrow> (error + world) \<times> event list" where
  "load_config e w conf_filename needs_config_file =
     (case load_source e w conf_filename of
        Module d \<Rightarrow> (Inr (w\<lparr>w_config := d\<rparr>), [LoadSource conf_filename])
      | RaisesSystemExit code \<Rightarrow> (Inl (SystemExit code), [LoadSource conf_filename])
      | RaisesKeyboardInterrupt \<Rightarrow> (Inl KeyboardInterrupt, [LoadSource conf_filename])
      | Raises msg \<Rightarrow>
          if path_exists w conf_filename then
            (Inl (SystemExit 1),
             [LoadSource conf_filename,
              LogError ([CHR 0x22] @ conf_filename @ [CHR 0x22] @ '' cannot be parsed.''
                        @ [CHR 0x0A] @ msg)])
          else if needs_config_file then
            (Inr (w\<lparr>w_config := []\<rparr>),
             [LoadSource conf_filename,
              LogWarn (''Cannot find configuration file '' @ [CHR 0x22] @ conf_filename
                       @ [CHR 0x22] @ ''.'')])
          else (Inr (w\<lparr>w_config := []\<rparr>), [LoadSource conf_filename]))"

text \<open>The dictionary a run of \<open>load_config\<close> that does not end \<^verbatim>\<open>main\<close> leaves in
  \<^verbatim>\<open>config\<close>.\<close>

definition loaded_config :: "env \<Rightarrow> world \<Rightarrow> string \<Rightarrow> config" where
  "loaded_config e w conf_filename =
     (case load_source e w conf_filename of Module d \<Rightarrow> d | _ \<Rightarrow> [])"

subsection \<open>\<^verbatim>\<open>main\<close>, lines 119 to 140: invariant mode, plugins marker, reserved keys\<close>

text \<open>
  The result of lines 119 to 128 is the pair of the local \<^verbatim>\<open>invariant\<close> and whether the
  local \<^verbatim>\<open>freeze\<close> has been bound. \<^verbatim>\<open>req_missing\<close> lives in \<^verbatim>\<open>utils\<close>; whether it
  returns or raises is a field of the environment.
\<close>

definition start_invariant ::
  "env \<Rightarrow> string list \<Rightarrow> (error + bool \<times> bool) \<times> event list" where
  "start_invariant e args =
     (if first_is_build e args \<and> bytes_in e ''--invariant'' args then
        (if freezegun_available e then (Inr (True, True), [FreezeStart])
         else if req_missing_raises e then
           (Inl (MissingDependencies [''freezegun'']),
            [ReqMissing [''freezegun''] ''perform invariant builds''])
         else (Inr (False, False), [ReqMissing [''freezegun''] ''perform invariant builds'']))
      else (Inr (False, False), []))"

text \<open>Lines 130 to 133. \<^verbatim>\<open>open\<close> raises when \<^verbatim>\<open>plugins\<close> is not a directory.\<close>

definition plugins_marker :: "world \<Rightarrow> (error + world) \<times> event list" where
  "plugins_marker w =
     (if w_config w \<noteq> [] then
        (if path_exists w ''plugins'' \<and> \<not> path_exists w ''plugins/__init__.py'' then
           (case resolve_name w ''plugins'' of
              None \<Rightarrow> (Inl (IOError ''plugins/__init__.py''), [])
            | Some d \<Rightarrow>
                (case node (w_fs w) d of
                   Some Dir \<Rightarrow>
                     (Inr (w\<lparr>w_fs := (w_fs w)(d @ [''__init__.py''] \<mapsto> File)\<rparr>),
                      [WriteFile ''plugins/__init__.py'' ''# Plugin modules go here.''])
                 | _ \<Rightarrow> (Inl (IOError ''plugins/__init__.py''), [])))
         else (Inr w, []))
      else (Inr w, []))"

definition reserved_items :: "bool \<Rightarrow> bool \<Rightarrow> bool \<Rightarrow> string \<Rightarrow> (string \<times> pyval) list" where
  "reserved_items colorful invariant' quiet conf_filename =
     [(''__colorful__'', PBool colorful),
      (''__invariant__'', PBool invariant'),
      (''__quiet__'', PBool quiet),
      (''__configuration_filename__'', PStr conf_filename)]"

text \<open>Lines 135 to 138: four item assignments, in this order.\<close>

definition inject_reserved :: "(string \<times> pyval) list \<Rightarrow> config \<Rightarrow> config" where
  "inject_reserved items cfg = foldl (\<lambda>c (k, v). AList.update k v c) cfg items"

text \<open>The events that write a reserved key or construct the site object, and the events
  that construct the site object or call the engine.\<close>

fun config_event :: "event \<Rightarrow> bool" where
  "config_event (SetConfig _ _) = True"
| "config_event (ConstructSite _) = True"
| "config_event _ = False"

fun build_event :: "event \<Rightarrow> bool" where
  "build_event (ConstructSite _) = True"
| "build_event (EngineRun _) = True"
| "build_event _ = False"

record main_locals =
  s_args :: "string list"
  s_colorful :: bool
  s_quiet :: bool
  s_conf_filename :: string
  s_invariant :: bool
  s_freeze :: bool
  s_site :: site

text \<open>Lines 69 and 70: \<^verbatim>\<open>args\<close> defaults to \<^verbatim>\<open>sys.argv[1:]\<close>.\<close>

definition args0_of :: "env \<Rightarrow> string list option \<Rightarrow> string list" where
  "args0_of e args_opt = (case args_opt of None \<Rightarrow> sys_argv e | Some a \<Rightarrow> a)"

text \<open>Lines 63 to 140, up to and including the construction of the site object. (Line 102,
  \<^verbatim>\<open>sys.path.append('')\<close>, only prepares the import of the configuration file and has no
  event.)\<close>

definition main_prepare ::
  "env \<Rightarrow> world \<Rightarrow> string list option \<Rightarrow> (error + main_locals) \<times> event list \<times> world" where
  "main_prepare e w args_opt =
     (let colorful = colorful_of e;
          args0 = args0_of e args_opt;
          quiet = quiet_requested e args0;
          conf_filename = conf_filename_of args0;
          args = args_without_conf args0;
          needs_config_file = needs_config_file_of args;
          rooted = enter_root e w needs_config_file;
          ev1 = flag_events e args0 @ conf_events args0 @ snd rooted
      in case load_config e (fst rooted) conf_filename needs_config_file of
           (Inl err, ev_load) \<Rightarrow> (Inl err, ev1 @ ev_load, fst rooted)
         | (Inr w2, ev_load) \<Rightarrow>
             (case start_invariant e args of
                (Inl err, ev_inv) \<Rightarrow> (Inl err, ev1 @ ev_load @ ev_inv, w2)
              | (Inr (invariant', freeze), ev_inv) \<Rightarrow>
                  (case plugins_marker w2 of
                     (Inl err, ev_pl) \<Rightarrow> (Inl err, ev1 @ ev_load @ ev_inv @ ev_pl, w2)
                   | (Inr w3, ev_pl) \<Rightarrow>
                       (let items = reserved_items colorful invariant' quiet conf_filename;
                            cfg = inject_reserved items (w_config w3)
                        in (Inr \<lparr>s_args = args, s_colorful = colorful, s_quiet = quiet,
                                 s_conf_filename = conf_filename, s_invariant = invariant',
                                 s_freeze = freeze, s_site = Nikola e cfg\<rparr>,
                            ev1 @ ev_load @ ev_inv @ ev_pl
                              @ map (\<lambda>(k, v). SetConfig k v) items @ [ConstructSite cfg],
                            w3\<lparr>w_config := cfg\<rparr>)))))"

text \<open>Lines 143 to 145: \<^verbatim>\<open>freeze\<close> is a local of \<^verbatim>\<open>main\<close>; reading it unbound raises
  \<^verbatim>\<open>UnboundLocalError\<close>.\<close>

definition main_finish :: "site \<Rightarrow> bool \<Rightarrow> int \<Rightarrow> (error + int) \<times> event list" where
  "main_finish site' freeze code =
     (if invariant site' then
        (if freeze then (Inr code, [FreezeStop]) else (Inl (UnboundLocalError ''freeze''), []))
      else (Inr code, []))"

text \<open>The whole of \<^verbatim>\<open>main\<close>. The last component is the site object as it is after
  \<^verbatim>\<open>run\<close>, when one was constructed.\<close>

definition main ::
  "env \<Rightarrow> world \<Rightarrow> string list option \<Rightarrow>
     (error + int) \<times> event list \<times> world \<times> site option" where
  "main e w args_opt =
     (case main_prepare e w args_opt of
        (Inl err, ev, w1) \<Rightarrow> (Inl err, ev, w1, None)
      | (Inr s, ev, w1) \<Rightarrow>
          (case run e (DoitNikola_init (s_site s) (s_quiet s)) (s_args s) (w_fs w1) of
             (Inl err, ev_run, site', fs') \<Rightarrow>
               (Inl err, ev @ ev_run, w1\<lparr>w_fs := fs'\<rparr>, Some site')
           | (Inr code, ev_run, site', fs') \<Rightarrow>
               (case main_finish site' (s_freeze s) code of
                  (r, ev_fin) \<Rightarrow> (r, ev @ ev_run @ ev_fin, w1\<lparr>w_fs := fs'\<rparr>, Some site'))))"

subsection \<open>\<^verbatim>\<open>Clean.clean_tasks\<close>\<close>










subsection \<open>\<^verbatim>\<open>NikolaTaskLoader.load_tasks\<close>\<close>

text \<open>The arguments \<^verbatim>\<open>cmd\<close>, \<^verbatim>\<open>opt_values\<close> and \<^verbatim>\<open>pos_args\<close> are not read. The result is
  the pair of the task list and \<^verbatim>\<open>DOIT_CONFIG\<close>.\<close>

definition load_tasks ::
  "env \<Rightarrow> nikola_task_loader \<Rightarrow> (task list \<times> (string \<times> doit_value) list) \<times> event list" where
  "load_tasks e self =
     (let DOIT_CONFIG =
            (if tl_quiet self then [(''verbosity'', VInt 0), (''reporter'', VStr ''zero'')]
             else [(''reporter'', ExecutedOnlyReporter), (''outfile'', Stderr)]);
          DOIT_CONFIG' =
            AList.update ''default_tasks'' (VStrList [''render_site'', ''post_render''])
              DOIT_CONFIG;
          tasks = generate_tasks e ''render_site''
                    (gen_tasks e (tl_nikola self) ''render_site'' ''Task''
                       ''Group of tasks to render the site.'');
          latetasks = generate_tasks e ''post_render''
                        (gen_tasks e (tl_nikola self) ''post_render'' ''LateTask''
                           ''Group of tasks to be executes after site is rendered.'')
      in ((tasks @ latetasks, DOIT_CONFIG'),
          [GenTasks ''render_site'' ''Task'', GenTasks ''post_render'' ''LateTask'',
           SignalInitialized]))"

subsection \<open>A concrete environment\<close>

text \<open>
  An environment for evaluating the model: the command classes of the engine, a site
  constructor that reads the reserved keys and counts a project as configured when the
  dictionary has any other key, and an engine whose \<^verbatim>\<open>run\<close> returns 0.
\<close>

definition doit_classes :: "cmd_class list" where
  "doit_classes =
     [DoitHelp, DoitRun, DoitOther ''list'', DoitOther ''info'', DoitClean,
      DoitOther ''forget'', DoitOther ''ignore'', DoitAuto, DoitOther ''dumpdb'',
      DoitOther ''strace'', DoitOther ''tabcompletion'']"

definition plugin_commands :: "(string \<times> string) list" where
  "plugin_commands =
     [(''version'', ''print the Nikola version number''),
      (''init'', ''create a Nikola site in the specified folder''),
      (''check'', ''check links and files in the generated site'')]"

definition reserved_key :: "string \<Rightarrow> bool" where
  "reserved_key k \<longleftrightarrow>
     k \<in> set [''__colorful__'', ''__invariant__'', ''__quiet__'',
              ''__configuration_filename__'']"

definition sample_Nikola :: "config \<Rightarrow> site" where
  "sample_Nikola cfg =
     \<lparr>configured = (\<exists>k \<in> set (map fst cfg). \<not> reserved_key k),
      invariant = (map_of cfg ''__invariant__'' = Some (PBool True)),
      commands = plugin_commands\<rparr>"

definition sample_fs :: filesystem where
  "sample_fs =
     [[''site''] \<mapsto> Dir, [''site'', ''conf.py''] \<mapsto> File, [''site'', ''cache''] \<mapsto> Dir,
      [''site'', ''cache'', ''posts''] \<mapsto> Dir,
      [''site'', ''cache'', ''posts'', ''a.html''] \<mapsto> File,
      [''site'', ''mycache''] \<mapsto> Dir, [''site'', ''mycache'', ''b.html''] \<mapsto> File,
      [''site'', ''output''] \<mapsto> Dir, [''site'', ''README''] \<mapsto> File]"

definition sample_env :: env where
  "sample_env =
     \<lparr>py3 = False, stderr_isatty = True, os_name = ''posix'', sys_argv = [],
      get_root_dir = (\<lambda>d f. case walk f [] (split_path d) of
                               None \<Rightarrow> None
                             | Some p \<Rightarrow> if f (p @ [''conf.py'']) \<noteq> None then Some d else None),
      exec_conf = (\<lambda>p. Module [(''BLOG_TITLE'', PStr ''Demo'')]),
      load_error = (\<lambda>name. ''IOError: [Errno 2] No such file or directory''),
      freezegun_available = True, req_missing_raises = False,
      Nikola = sample_Nikola,
      DoitMain_DOIT_CMDS = doit_classes,
      DoitMain_run = (\<lambda>app cmd_args f. (0, nikola app, f)),
      DoitClean_clean_tasks = (\<lambda>tasks dryrun f. f),
      gen_tasks = (\<lambda>s name kind doc. [name]),
      generate_tasks = (\<lambda>name ds. map Task ds)\<rparr>"

definition sample_world :: world where
  "sample_world = \<lparr>w_cwd = ''/site'', w_fs = sample_fs, w_config = []\<rparr>"

definition unconfigured_site :: site where
  "unconfigured_site = \<lparr>configured = False, invariant = False, commands = plugin_commands\<rparr>"

text \<open>Variants: the same under Python 3, with a configuration file that raises a
  \<^verbatim>\<open>SyntaxError\<close>, with one that calls \<^verbatim>\<open>sys.exit(7)\<close>, and with a site object that
  reports invariant mode whatever its dictionary says.\<close>

definition python3_env :: env where
  "python3_env = sample_env\<lparr>py3 := True\<rparr>"

definition broken_conf_env :: env where
  "broken_conf_env =
     sample_env\<lparr>exec_conf := (\<lambda>p. Raises ''SyntaxError: invalid syntax'')\<rparr>"

definition exiting_conf_env :: env where
  "exiting_conf_env = sample_env\<lparr>exec_conf := (\<lambda>p. RaisesSystemExit 7)\<rparr>"

definition always_invariant_env :: env where
  "always_invariant_env =
     sample_env\<lparr>Nikola := (\<lambda>cfg. (sample_Nikola cfg)\<lparr>invariant := True\<rparr>)\<rparr>"





section \<open>Properties of the dispatcher\<close>

lemma help_registered_builtin:
  "\<exists>cmd. DoitMain_get_commands e ''help'' = Some cmd \<and> isinstance_Command_Help cmd"
  by (simp add: DoitMain_get_commands_def DOIT_CMDS_def)

lemma plugins_keep_ungated:
  "\<exists>cmd. m name = Some cmd \<and> isinstance_Command_Help cmd \<Longrightarrow>
   \<exists>cmd. foldl (\<lambda>cmds (n, c). cmds(n \<mapsto> PluginCommand c)) m ps name = Some cmd
     \<and> isinstance_Command_Help cmd"
  by (induction ps arbitrary: m) (auto split: prod.splits)

lemma help_registered:
  "\<exists>cmd. get_commands e self ''help'' = Some cmd \<and> isinstance_Command_Help cmd"
  unfolding get_commands_def
  by (rule plugins_keep_ungated) (rule help_registered_builtin)

text \<open>
  C4. For the empty argument list, \<^verbatim>\<open>DoitNikola.run\<close> resolves the invocation to the single
  command \<^verbatim>\<open>help\<close>: both token lists become \<^verbatim>\<open>['help']\<close>, and since \<^verbatim>\<open>help\<close> is
  always registered and never gated, the engine is called with exactly that list.
\<close>

theorem empty_args_resolve_to_help:
  "resolve [] = Inr ([''help''], [''help''])
   \<and> run e self [] fs = super_run e self [''help''] fs"
proof
  show r: "resolve [] = Inr ([''help''], [''help''])"
    by (simp add: resolve_def rewrite_empty_def rewrite_help_def rewrite_version_def
        version_spelling_def help_spelling_def)
  obtain cmd where c: "get_commands e self ''help'' = Some cmd" "isinstance_Command_Help cmd"
    using help_registered by blast
  show "run e self [] fs = super_run e self [''help''] fs"
    by (simp add: run_def r c)
qed

lemma map_sys_decode: "map sys_decode args = args"
  by (induction args) (simp_all add: sys_decode_def)

lemma resolve_nonempty:
  "resolve cmd_args = Inr (cmd_args', args) \<Longrightarrow> args \<noteq> []"
  by (auto simp: resolve_def rewrite_empty_def rewrite_help_def rewrite_version_def
      help_spelling_def map_sys_decode split: sum.splits if_splits)


lemma process_args_total:
  "[] \<notin> set cmd_args \<Longrightarrow> \<exists>args. process_args cmd_args = Inr args"
  by (induction cmd_args) (auto split: list.splits sum.splits)

lemma process_args_dash:
  "process_args cmd_args = Inr args \<Longrightarrow>
   (CHR ''-'' # t) \<in> set args \<longleftrightarrow> (CHR ''-'' # t) \<in> set cmd_args"
  by (induction cmd_args arbitrary: args) (auto split: list.splits sum.splits if_splits)

lemma help_version_in_processed:
  assumes "process_args cmd_args = Inr args"
  shows "(''--help'' \<in> set args \<or> ''-h'' \<in> set args)
           \<longleftrightarrow> (''--help'' \<in> set cmd_args \<or> ''-h'' \<in> set cmd_args)"
    and "(\<exists>arg \<in> set args. version_spelling arg)
           \<longleftrightarrow> (\<exists>arg \<in> set cmd_args. version_spelling arg)"
  using process_args_dash [OF assms, of "''-help''"] process_args_dash [OF assms, of "''h''"]
    process_args_dash [OF assms, of "''-version''"] process_args_dash [OF assms, of "''V''"]
  by (auto simp: version_spelling_def)

lemma resolve_with_help:
  assumes "process_args cmd_args = Inr args"
    and "''--help'' \<in> set cmd_args \<or> ''-h'' \<in> set cmd_args"
  shows "resolve cmd_args =
     Inr (if \<exists>arg \<in> set cmd_args. version_spelling arg then ([''version''], [''version''])
          else (''help'' # filter (\<lambda>arg. \<not> help_spelling arg) cmd_args,
                ''help'' # filter (\<lambda>arg. \<not> help_spelling arg) args))"
proof -
  have ne: "args \<noteq> []"
    using help_version_in_processed(1) [OF assms(1)] assms(2) by auto
  have h: "''--help'' \<in> set args \<or> ''-h'' \<in> set args"
    using help_version_in_processed(1) [OF assms(1)] assms(2) by simp
  have v: "(\<exists>arg \<in> set (filter (\<lambda>arg. \<not> help_spelling arg) (''help'' # args)).
              version_spelling arg)
           \<longleftrightarrow> (\<exists>arg \<in> set cmd_args. version_spelling arg)"
    using help_version_in_processed(2) [OF assms(1)]
    by (auto simp: help_spelling_def version_spelling_def)
  show ?thesis
    using ne h v
    by (simp add: resolve_def assms(1) rewrite_empty_def rewrite_help_def rewrite_version_def
        map_sys_decode help_spelling_def)
qed







text \<open>
  C2, as amended. The rewrite rules are consecutive \<^verbatim>\<open>if\<close> statements and none of them
  stops the later ones. For tokens the engine's \<^verbatim>\<open>process_args\<close> accepts and that contain
  a help spelling: without a version spelling the invocation resolves to \<^verbatim>\<open>help\<close> followed
  by the original tokens with the help spellings removed; with a version spelling, the version
  rule is applied after the help rule and the invocation resolves to \<^verbatim>\<open>version\<close> alone.
\<close>

theorem rewrite_rules_in_sequence:
  assumes "process_args cmd_args = Inr args"
    and "''--help'' \<in> set cmd_args \<or> ''-h'' \<in> set cmd_args"
  shows "resolve cmd_args =
     Inr (if \<exists>arg \<in> set cmd_args. version_spelling arg then ([''version''], [''version''])
          else (''help'' # filter (\<lambda>arg. \<not> help_spelling arg) cmd_args,
                ''help'' # filter (\<lambda>arg. \<not> help_spelling arg) args))"
  using assms by (rule resolve_with_help)

theorem rewrite_rules_in_sequence_witness:
  "process_args [''-h'', ''build'', ''x=1''] = Inr [''-h'', ''build'']
   \<and> ''-h'' \<in> set [''-h'', ''build'', ''x=1'']
   \<and> resolve [''-h'', ''build'', ''x=1''] = Inr ([''help'', ''build'', ''x=1''], [''help'', ''build''])"
proof -
  have p: "process_args [''-h'', ''build'', ''x=1''] = Inr [''-h'', ''build'']" by simp
  have h: "''--help'' \<in> set [''-h'', ''build'', ''x=1''] \<or> ''-h'' \<in> set [''-h'', ''build'', ''x=1'']"
    by simp
  show ?thesis
    using rewrite_rules_in_sequence [OF p h] p
    by (simp add: version_spelling_def help_spelling_def)
qed

text \<open>
  C2 as stated fails: with \<^verbatim>\<open>--help\<close> and \<^verbatim>\<open>--version\<close> both present the version rule is
  applied and the invocation resolves to \<^verbatim>\<open>version\<close>.
\<close>

theorem help_does_not_stop_version:
  "''--help'' \<in> set [''--help'', ''--version'']
   \<and> resolve [''--help'', ''--version''] = Inr ([''version''], [''version''])
   \<and> resolve [''--help'', ''--version''] \<noteq> Inr ([''help'', ''--version''], [''help'', ''--version''])"
  by (simp add: resolve_def rewrite_empty_def rewrite_help_def rewrite_version_def
      version_spelling_def help_spelling_def sys_decode_def)

text \<open>
  C5, as amended. For every list of non-empty tokens that contains a help spelling at any
  position and no version spelling, \<^verbatim>\<open>run\<close> calls the engine with \<^verbatim>\<open>help\<close> followed by
  all original tokens except the help spellings, in their original order; the result does not
  depend on where the help spelling stood.
\<close>

theorem help_anywhere:
  assumes "[] \<notin> set cmd_args"
    and "''--help'' \<in> set cmd_args \<or> ''-h'' \<in> set cmd_args"
    and "\<not> (\<exists>arg \<in> set cmd_args. version_spelling arg)"
  shows "run e self cmd_args fs =
     super_run e self (''help'' # filter (\<lambda>arg. \<not> help_spelling arg) cmd_args) fs"
proof -
  obtain args where p: "process_args cmd_args = Inr args"
    using process_args_total [OF assms(1)] by blast
  have r: "resolve cmd_args =
     Inr (''help'' # filter (\<lambda>arg. \<not> help_spelling arg) cmd_args,
          ''help'' # filter (\<lambda>arg. \<not> help_spelling arg) args)"
    using resolve_with_help [OF p assms(2)] assms(3) by simp
  obtain cmd where c: "get_commands e self ''help'' = Some cmd" "isinstance_Command_Help cmd"
    using help_registered by blast
  show ?thesis by (simp add: run_def r c)
qed

theorem help_anywhere_witness:
  "[] \<notin> set [''build'', ''--help'']
   \<and> ''--help'' \<in> set [''build'', ''--help'']
   \<and> \<not> (\<exists>arg \<in> set [''build'', ''--help'']. version_spelling arg)
   \<and> run sample_env (DoitNikola_init unconfigured_site False) [''build'', ''--help''] sample_fs =
       (Inr 0, [EngineRun [''help'', ''build'']], unconfigured_site, sample_fs)"
proof -
  have a: "[] \<notin> set [''build'', ''--help'']" by simp
  have h: "''--help'' \<in> set [''build'', ''--help''] \<or> ''-h'' \<in> set [''build'', ''--help'']"
    by simp
  have v: "\<not> (\<exists>arg \<in> set [''build'', ''--help'']. version_spelling arg)"
    by (simp add: version_spelling_def)
  show ?thesis
    using help_anywhere [OF a h v, of sample_env "DoitNikola_init unconfigured_site False"
        sample_fs] v
    by (simp add: help_spelling_def super_run_def sample_env_def DoitNikola_init_def)
qed

text \<open>
  C5 as stated fails: \<^verbatim>\<open>build -h -V\<close> contains a help spelling, and the engine is called
  with \<^verbatim>\<open>version\<close> alone, not with \<^verbatim>\<open>help build -V\<close>.
\<close>

theorem help_with_version_runs_version:
  "''-h'' \<in> set [''build'', ''-h'', ''-V'']
   \<and> run sample_env (DoitNikola_init unconfigured_site False) [''build'', ''-h'', ''-V''] sample_fs =
       (Inr 0, [EngineRun [''version'']], unconfigured_site, sample_fs)"
proof -
  have r: "resolve [''build'', ''-h'', ''-V''] = Inr ([''version''], [''version''])"
    by (simp add: resolve_def rewrite_empty_def rewrite_help_def rewrite_version_def
        version_spelling_def help_spelling_def sys_decode_def)
  have g: "get_commands sample_env (DoitNikola_init unconfigured_site False) ''version''
             = Some (PluginCommand ''print the Nikola version number'')"
    by (simp add: get_commands_def DoitMain_get_commands_def DOIT_CMDS_def sample_env_def
        doit_classes_def DoitNikola_init_def unconfigured_site_def plugin_commands_def)
  have "run sample_env (DoitNikola_init unconfigured_site False) [''build'', ''-h'', ''-V'']
          sample_fs
        = super_run sample_env (DoitNikola_init unconfigured_site False) [''version''] sample_fs"
    by (simp add: run_def r g)
  then show ?thesis
    by (simp add: super_run_def sample_env_def DoitNikola_init_def)
qed

section \<open>Properties of \<^verbatim>\<open>main\<close>, \<^verbatim>\<open>load_tasks\<close> and \<^verbatim>\<open>clean_tasks\<close>\<close>

lemma early_events_plain:
  "x \<in> set (flag_events e a @ conf_events a @ snd (enter_root e w n)) \<Longrightarrow>
   \<not> config_event x \<and> \<not> build_event x \<and> x \<noteq> FreezeStart \<and> x \<noteq> LoadSource f"
  by (auto simp: flag_events_def conf_events_def enter_root_def
      split: option.splits if_splits prod.splits)

lemma enter_root_config: "w_config (fst (enter_root e w n)) = w_config w"
  by (simp add: enter_root_def split: option.splits)

lemma load_config_events:
  "load_config e w f n = (r, ev) \<Longrightarrow>
   LoadSource f \<in> set ev \<and> (\<forall>x \<in> set ev. \<not> config_event x \<and> \<not> build_event x \<and> x \<noteq> FreezeStart)"
  by (auto simp: load_config_def split: load_result.splits if_splits)

lemma start_invariant_events:
  "start_invariant e args = (r, ev) \<Longrightarrow>
   (\<forall>x \<in> set ev. \<not> config_event x \<and> \<not> build_event x)"
  by (auto simp: start_invariant_def split: if_splits)

lemma start_invariant_freeze:
  "start_invariant e args = (Inr (iv, freeze), ev) \<Longrightarrow>
   iv = freeze \<and> (freeze \<longleftrightarrow> FreezeStart \<in> set ev)
   \<and> (freeze \<longleftrightarrow> first_is_build e args \<and> bytes_in e ''--invariant'' args
         \<and> freezegun_available e)"
  by (auto simp: start_invariant_def split: if_splits)

lemma plugins_marker_events:
  "plugins_marker w = (r, ev) \<Longrightarrow>
   (\<forall>x \<in> set ev. \<not> config_event x \<and> \<not> build_event x \<and> x \<noteq> FreezeStart)"
  by (auto simp: plugins_marker_def split: if_splits option.splits fnode.splits)

lemma plugins_marker_config:
  "plugins_marker w = (Inr w', ev) \<Longrightarrow> w_config w' = w_config w"
  by (auto simp: plugins_marker_def split: if_splits option.splits fnode.splits)

lemma main_prepare_Inl:
  assumes "main_prepare e w args_opt = (Inl err, ev, w1)"
  shows "(\<exists>code. err = SystemExit code) \<or> err = KeyboardInterrupt
         \<or> err = MissingDependencies [''freezegun'']
         \<or> err = IOError ''plugins/__init__.py''"
  using assms unfolding main_prepare_def Let_def
  by (auto simp: load_config_def start_invariant_def plugins_marker_def
      split: sum.splits prod.splits load_result.splits if_splits option.splits fnode.splits)

lemma main_prepare_Inr:
  assumes "main_prepare e w args_opt = (Inr s, ev, w1)"
  shows "\<exists>w2 ev_load ev_inv w3 ev_pl.
     load_config e (fst (enter_root e w (needs_config_file_of (args_without_conf (args0_of e args_opt)))))
        (conf_filename_of (args0_of e args_opt))
        (needs_config_file_of (args_without_conf (args0_of e args_opt))) = (Inr w2, ev_load)
     \<and> start_invariant e (args_without_conf (args0_of e args_opt))
         = (Inr (s_invariant s, s_freeze s), ev_inv)
     \<and> plugins_marker w2 = (Inr w3, ev_pl)
     \<and> s_args s = args_without_conf (args0_of e args_opt)
     \<and> s_colorful s = colorful_of e
     \<and> s_quiet s = quiet_requested e (args0_of e args_opt)
     \<and> s_conf_filename s = conf_filename_of (args0_of e args_opt)
     \<and> s_site s = Nikola e (w_config w1)
     \<and> w1 = w3\<lparr>w_config := inject_reserved
          (reserved_items (s_colorful s) (s_invariant s) (s_quiet s) (s_conf_filename s))
          (w_config w3)\<rparr>
     \<and> ev = (flag_events e (args0_of e args_opt) @ conf_events (args0_of e args_opt)
             @ snd (enter_root e w (needs_config_file_of (args_without_conf (args0_of e args_opt)))))
            @ ev_load @ ev_inv @ ev_pl
            @ map (\<lambda>(k, v). SetConfig k v)
                (reserved_items (s_colorful s) (s_invariant s) (s_quiet s) (s_conf_filename s))
            @ [ConstructSite (w_config w1)]"
  using assms unfolding main_prepare_def Let_def args0_of_def
  by (auto split: sum.splits prod.splits)


lemma load_config_Inr:
  "load_config e w f n = (Inr w2, ev) \<Longrightarrow>
   w2 = w\<lparr>w_config := loaded_config e w f\<rparr>"
  by (auto simp: load_config_def loaded_config_def split: load_result.splits if_splits)

lemma run_events:
  "run e self cmd_args fs = (r, ev, site', fs') \<Longrightarrow>
   (\<forall>x \<in> set ev. \<not> config_event x \<and> x \<noteq> FreezeStart)"
  by (auto simp: run_def super_run_def split: sum.splits list.splits option.splits
      if_splits prod.splits)

lemma main_finish_events:
  "main_finish site' freeze code = (r, ev) \<Longrightarrow>
   (\<forall>x \<in> set ev. \<not> config_event x \<and> x \<noteq> FreezeStart)"
  by (auto simp: main_finish_def split: if_splits)

lemma main_after_prepare:
  assumes "main_prepare e w args_opt = (Inr s, ev, w1)"
  shows "\<exists>r ev_rest fs' site'.
     main e w args_opt = (r, ev @ ev_rest, w1\<lparr>w_fs := fs'\<rparr>, Some site')
     \<and> (\<forall>x \<in> set ev_rest. \<not> config_event x \<and> x \<noteq> FreezeStart)"
proof -
  obtain r0 ev_run site' fs' where
    r: "run e (DoitNikola_init (s_site s) (s_quiet s)) (s_args s) (w_fs w1)
          = (r0, ev_run, site', fs')"
    by (metis prod_cases4)
  note re = run_events [OF r]
  show ?thesis
  proof (cases r0)
    case (Inl err)
    then have "main e w args_opt = (Inl err, ev @ ev_run, w1\<lparr>w_fs := fs'\<rparr>, Some site')"
      using assms r by (simp add: main_def)
    with re show ?thesis by blast
  next
    case (Inr code)
    obtain r1 ev_fin where f: "main_finish site' (s_freeze s) code = (r1, ev_fin)"
      by (metis prod.exhaust)
    have "main e w args_opt = (r1, ev @ (ev_run @ ev_fin), w1\<lparr>w_fs := fs'\<rparr>, Some site')"
      using assms r Inr f by (simp add: main_def)
    moreover have "\<forall>x \<in> set (ev_run @ ev_fin). \<not> config_event x \<and> x \<noteq> FreezeStart"
      using re main_finish_events [OF f] by auto
    ultimately show ?thesis by blast
  qed
qed

lemma inject_reserved_lookup:
  "map_of (inject_reserved (reserved_items c i q f) cfg) ''__colorful__'' = Some (PBool c)"
  "map_of (inject_reserved (reserved_items c i q f) cfg) ''__invariant__'' = Some (PBool i)"
  "map_of (inject_reserved (reserved_items c i q f) cfg) ''__quiet__'' = Some (PBool q)"
  "map_of (inject_reserved (reserved_items c i q f) cfg) ''__configuration_filename__''
     = Some (PStr f)"
  "\<not> reserved_key k \<Longrightarrow>
     map_of (inject_reserved (reserved_items c i q f) cfg) k = map_of cfg k"
  by (simp_all add: inject_reserved_def reserved_items_def reserved_key_def update_conv')

text \<open>
  C9. On every path of \<^verbatim>\<open>main\<close> that does not exit before line 140, the events of the
  whole call are: some events with the load of the configuration file among them and no write
  of a reserved key, then the four writes of \<^verbatim>\<open>__colorful__\<close>, \<^verbatim>\<open>__invariant__\<close>,
  \<^verbatim>\<open>__quiet__\<close> and \<^verbatim>\<open>__configuration_filename__\<close>, one each, then the construction of
  the site object from the dictionary so extended, then events without any further write or
  construction. The dictionary handed to \<^verbatim>\<open>Nikola\<close> is the loaded one with the four items
  assigned, and \<^verbatim>\<open>config\<close> still has that value when \<^verbatim>\<open>main\<close> ends.
\<close>

theorem reserved_keys_injected_once:
  assumes "main_prepare e w args_opt = (Inr s, ev, w1)"
    and "main e w args_opt = (r, ev_all, w', site_opt)"
    and "items = reserved_items (s_colorful s) (s_invariant s) (s_quiet s) (s_conf_filename s)"
    and "w0 = fst (enter_root e w (needs_config_file_of (s_args s)))"
  shows "\<exists>before after.
      ev_all = before @ map (\<lambda>(k, v). SetConfig k v) items @ [ConstructSite (w_config w1)] @ after
    \<and> LoadSource (s_conf_filename s) \<in> set before
    \<and> (\<forall>x \<in> set (before @ after). \<not> config_event x)
    \<and> map fst items = [''__colorful__'', ''__invariant__'', ''__quiet__'',
                         ''__configuration_filename__'']
    \<and> w_config w1 = inject_reserved items (loaded_config e w0 (s_conf_filename s))
    \<and> map_of (w_config w1) ''__colorful__'' = Some (PBool (colorful_of e))
    \<and> map_of (w_config w1) ''__invariant__'' = Some (PBool (s_invariant s))
    \<and> map_of (w_config w1) ''__quiet__'' = Some (PBool (s_quiet s))
    \<and> map_of (w_config w1) ''__configuration_filename__'' = Some (PStr (s_conf_filename s))
    \<and> s_site s = Nikola e (w_config w1)
    \<and> w_config w' = w_config w1"
proof -
  from main_prepare_Inr [OF assms(1)] obtain w2 ev_load ev_inv w3 ev_pl where
    l: "load_config e w0 (s_conf_filename s) (needs_config_file_of (s_args s)) = (Inr w2, ev_load)"
    and i: "start_invariant e (s_args s) = (Inr (s_invariant s, s_freeze s), ev_inv)"
    and p: "plugins_marker w2 = (Inr w3, ev_pl)"
    and site: "s_site s = Nikola e (w_config w1)"
    and col: "s_colorful s = colorful_of e"
    and w1: "w1 = w3\<lparr>w_config := inject_reserved items (w_config w3)\<rparr>"
    and ev: "ev = (flag_events e (args0_of e args_opt) @ conf_events (args0_of e args_opt)
             @ snd (enter_root e w (needs_config_file_of (s_args s))))
            @ ev_load @ ev_inv @ ev_pl
            @ map (\<lambda>(k, v). SetConfig k v) items @ [ConstructSite (w_config w1)]"
    unfolding assms(3) assms(4) by auto
  define before where "before = (flag_events e (args0_of e args_opt)
      @ conf_events (args0_of e args_opt)
      @ snd (enter_root e w (needs_config_file_of (s_args s)))) @ ev_load @ ev_inv @ ev_pl"
  from main_after_prepare [OF assms(1)] assms(2) obtain after fs' where
    a: "ev_all = ev @ after" "w' = w1\<lparr>w_fs := fs'\<rparr>"
      "\<forall>x \<in> set after. \<not> config_event x"
    by auto
  have 1: "ev_all = before @ map (\<lambda>(k, v). SetConfig k v) items
             @ [ConstructSite (w_config w1)] @ after"
    using a(1) ev by (simp add: before_def)
  have 2: "LoadSource (s_conf_filename s) \<in> set before"
    using load_config_events [OF l] by (simp add: before_def)
  have 3: "\<forall>x \<in> set before. \<not> config_event x"
    using early_events_plain [of _ e "args0_of e args_opt" w "needs_config_file_of (s_args s)"]
      load_config_events [OF l] start_invariant_events [OF i] plugins_marker_events [OF p]
    unfolding before_def by (metis Un_iff set_append)
  have 4: "w_config w1 = inject_reserved items (loaded_config e w0 (s_conf_filename s))"
    using w1 plugins_marker_config [OF p] load_config_Inr [OF l] by simp
  have 5: "map fst items = [''__colorful__'', ''__invariant__'', ''__quiet__'',
                            ''__configuration_filename__'']"
    by (simp add: assms(3) reserved_items_def)
  have 6: "map_of (w_config w1) ''__colorful__'' = Some (PBool (colorful_of e))"
    "map_of (w_config w1) ''__invariant__'' = Some (PBool (s_invariant s))"
    "map_of (w_config w1) ''__quiet__'' = Some (PBool (s_quiet s))"
    "map_of (w_config w1) ''__configuration_filename__'' = Some (PStr (s_conf_filename s))"
    unfolding 4 assms(3) col by (rule inject_reserved_lookup)+
  show ?thesis
    using 1 2 3 4 5 6 a(2,3) site by (intro exI [of _ before] exI [of _ after]) auto
qed

text \<open>
  C3, as amended. When the configuration file exists (under the name given, resolved in the
  directory \<^verbatim>\<open>main\<close> has moved to) and loading it raises an exception that is an instance
  of \<^verbatim>\<open>Exception\<close>, which is what line 110 catches, \<^verbatim>\<open>main\<close> ends with
  \<^verbatim>\<open>sys.exit(1)\<close>; its last event is the error log whose message is the file name in double
  quotes, \<^verbatim>\<open> cannot be parsed.\<close>, a line feed and the truncated traceback; no event
  constructs the site object or calls the engine, so no task is loaded and nothing is built;
  and \<^verbatim>\<open>config\<close> is what it was before the call, the empty dictionary of line 59 in a fresh
  process.
\<close>

theorem broken_conf_exits_1:
  assumes "args0 = args0_of e args_opt"
    and "w0 = fst (enter_root e w (needs_config_file_of (args_without_conf args0)))"
    and "load_source e w0 (conf_filename_of args0) = Raises msg"
    and "path_exists w0 (conf_filename_of args0)"
    and "ev = flag_events e args0 @ conf_events args0
            @ snd (enter_root e w (needs_config_file_of (args_without_conf args0)))
            @ [LoadSource (conf_filename_of args0),
               LogError ([CHR 0x22] @ conf_filename_of args0 @ [CHR 0x22]
                         @ '' cannot be parsed.'' @ [CHR 0x0A] @ msg)]"
  shows "main e w args_opt = (Inl (SystemExit 1), ev, w0, None)
       \<and> (\<forall>x \<in> set ev. (\<forall>cfg. x \<noteq> ConstructSite cfg) \<and> (\<forall>a. x \<noteq> EngineRun a))
       \<and> w_config w0 = w_config w"
proof -
  have l: "load_config e w0 (conf_filename_of args0)
             (needs_config_file_of (args_without_conf args0))
           = (Inl (SystemExit 1),
              [LoadSource (conf_filename_of args0),
               LogError ([CHR 0x22] @ conf_filename_of args0 @ [CHR 0x22]
                         @ '' cannot be parsed.'' @ [CHR 0x0A] @ msg)])"
    using assms(3,4) by (simp add: load_config_def)
  have p: "main_prepare e w args_opt = (Inl (SystemExit 1), ev, w0)"
    using l unfolding main_prepare_def Let_def assms(1,2,5) by simp
  have b: "\<forall>x \<in> set ev. (\<forall>cfg. x \<noteq> ConstructSite cfg) \<and> (\<forall>a. x \<noteq> EngineRun a)"
    unfolding assms(5)
    by (auto simp: flag_events_def conf_events_def enter_root_def
        split: option.splits if_splits)
  show ?thesis
    using p b by (simp add: main_def assms(2) enter_root_config)
qed

lemma conf_exit_escapes:
  assumes "load_source e (fst (enter_root e w
              (needs_config_file_of (args_without_conf (args0_of e args_opt)))))
             (conf_filename_of (args0_of e args_opt)) = RaisesSystemExit code"
  shows "fst (main e w args_opt) = Inl (SystemExit code)"
    and "\<forall>x \<in> set (fst (snd (main e w args_opt))). \<forall>m. x \<noteq> LogError m"
proof -
  have l: "load_config e (fst (enter_root e w
              (needs_config_file_of (args_without_conf (args0_of e args_opt)))))
             (conf_filename_of (args0_of e args_opt))
             (needs_config_file_of (args_without_conf (args0_of e args_opt)))
           = (Inl (SystemExit code), [LoadSource (conf_filename_of (args0_of e args_opt))])"
    using assms by (simp add: load_config_def)
  have p: "main_prepare e w args_opt =
      (Inl (SystemExit code),
       (flag_events e (args0_of e args_opt) @ conf_events (args0_of e args_opt)
        @ snd (enter_root e w (needs_config_file_of (args_without_conf (args0_of e args_opt)))))
       @ [LoadSource (conf_filename_of (args0_of e args_opt))],
       fst (enter_root e w (needs_config_file_of (args_without_conf (args0_of e args_opt)))))"
    using l unfolding main_prepare_def Let_def by simp
  show "fst (main e w args_opt) = Inl (SystemExit code)"
    using p by (simp add: main_def)
  show "\<forall>x \<in> set (fst (snd (main e w args_opt))). \<forall>m. x \<noteq> LogError m"
    using p by (auto simp: main_def flag_events_def conf_events_def enter_root_def
        split: option.splits if_splits)
qed

text \<open>
  C10. Suppose \<^verbatim>\<open>main\<close> reaches line 143 (\<^verbatim>\<open>run\<close> returned a code) and the site object
  then reports \<^verbatim>\<open>invariant\<close>. The local \<^verbatim>\<open>freeze\<close> is bound exactly when the arguments
  were \<^verbatim>\<open>build ... --invariant\<close> and freezegun could be imported, which is exactly when
  the freeze was started. If it is not bound, \<^verbatim>\<open>main\<close> raises \<^verbatim>\<open>UnboundLocalError\<close>
  instead of returning the code; if it is, \<^verbatim>\<open>main\<close> stops the freeze and returns the code.
  So a normal return with \<^verbatim>\<open>site.invariant\<close> true needs a started freeze.
\<close>

theorem invariant_needs_started_freeze:
  assumes "main_prepare e w args_opt = (Inr s, ev, w1)"
    and "run e (DoitNikola_init (s_site s) (s_quiet s)) (s_args s) (w_fs w1)
           = (Inr code, ev_run, site', fs')"
    and "invariant site'"
  shows "(s_freeze s \<longleftrightarrow> first_is_build e (s_args s) \<and> bytes_in e ''--invariant'' (s_args s)
                          \<and> freezegun_available e)
       \<and> (s_freeze s \<longleftrightarrow> FreezeStart \<in> set ev)
       \<and> (\<not> s_freeze s \<longrightarrow>
            main e w args_opt
              = (Inl (UnboundLocalError ''freeze''), ev @ ev_run, w1\<lparr>w_fs := fs'\<rparr>, Some site'))
       \<and> (s_freeze s \<longrightarrow>
            main e w args_opt
              = (Inr code, ev @ ev_run @ [FreezeStop], w1\<lparr>w_fs := fs'\<rparr>, Some site'))
       \<and> (\<forall>c. fst (main e w args_opt) = Inr c \<longrightarrow> FreezeStart \<in> set ev)"
proof -
  from main_prepare_Inr [OF assms(1)] obtain w2 ev_load ev_inv w3 ev_pl where
    l: "load_config e (fst (enter_root e w (needs_config_file_of (s_args s))))
          (s_conf_filename s) (needs_config_file_of (s_args s)) = (Inr w2, ev_load)"
    and i: "start_invariant e (s_args s) = (Inr (s_invariant s, s_freeze s), ev_inv)"
    and p: "plugins_marker w2 = (Inr w3, ev_pl)"
    and ev: "ev = (flag_events e (args0_of e args_opt) @ conf_events (args0_of e args_opt)
             @ snd (enter_root e w (needs_config_file_of (s_args s))))
            @ ev_load @ ev_inv @ ev_pl
            @ map (\<lambda>(k, v). SetConfig k v)
                (reserved_items (s_colorful s) (s_invariant s) (s_quiet s) (s_conf_filename s))
            @ [ConstructSite (w_config w1)]"
    by auto
  note f = start_invariant_freeze [OF i]
  have 1: "s_freeze s \<longleftrightarrow> first_is_build e (s_args s) \<and> bytes_in e ''--invariant'' (s_args s)
                          \<and> freezegun_available e"
    using f by blast
  have other: "FreezeStart \<notin> set (flag_events e (args0_of e args_opt)
        @ conf_events (args0_of e args_opt)
        @ snd (enter_root e w (needs_config_file_of (s_args s))))"
      "FreezeStart \<notin> set ev_load" "FreezeStart \<notin> set ev_pl"
    using early_events_plain [of FreezeStart e "args0_of e args_opt" w
        "needs_config_file_of (s_args s)"]
      load_config_events [OF l] plugins_marker_events [OF p]
    by blast+
  have 2: "s_freeze s \<longleftrightarrow> FreezeStart \<in> set ev"
    using f other unfolding ev by (auto simp: reserved_items_def)
  have 3: "\<not> s_freeze s \<longrightarrow>
            main e w args_opt
              = (Inl (UnboundLocalError ''freeze''), ev @ ev_run, w1\<lparr>w_fs := fs'\<rparr>, Some site')"
    using assms by (simp add: main_def main_finish_def)
  have 4: "s_freeze s \<longrightarrow>
            main e w args_opt
              = (Inr code, ev @ ev_run @ [FreezeStop], w1\<lparr>w_fs := fs'\<rparr>, Some site')"
    using assms by (simp add: main_def main_finish_def)
  have 5: "\<forall>c. fst (main e w args_opt) = Inr c \<longrightarrow> FreezeStart \<in> set ev"
    using 2 3 by (cases "s_freeze s") auto
  show ?thesis using 1 2 3 4 5 by blast
qed

lemma quiet_requested_python2:
  "\<not> py3 e \<Longrightarrow> ''-q'' \<in> set rest \<or> ''--quiet'' \<in> set rest \<Longrightarrow>
   quiet_requested e (''build'' # rest)"
  by (auto simp: quiet_requested_def first_is_build_def bytes_in_def bytes_eq_def)

lemma quiet_requested_python3: "py3 e \<Longrightarrow> \<not> quiet_requested e args"
  by (simp add: quiet_requested_def bytes_in_def bytes_eq_def)

lemma main_passes_quiet:
  "main_prepare e w args_opt = (Inr s, ev, w1) \<Longrightarrow>
   s_quiet s = quiet_requested e (args0_of e args_opt)
   \<and> tl_quiet (task_loader (DoitNikola_init (s_site s) (s_quiet s))) = s_quiet s"
  using main_prepare_Inr [of e w args_opt s ev w1]
  by (auto simp: DoitNikola_init_def NikolaTaskLoader_init_def)

lemma load_tasks_config:
  "snd (fst (load_tasks e self)) =
     (if tl_quiet self
      then [(''verbosity'', VInt 0), (''reporter'', VStr ''zero''),
            (''default_tasks'', VStrList [''render_site'', ''post_render''])]
      else [(''reporter'', ExecutedOnlyReporter), (''outfile'', Stderr),
            (''default_tasks'', VStrList [''render_site'', ''post_render''])])"
  by (simp add: load_tasks_def Let_def)


lemmas sample_defs =
  sample_env_def sample_world_def sample_fs_def sample_Nikola_def plugin_commands_def
  doit_classes_def reserved_key_def

lemmas prepare_defs =
  args0_of_def conf_filename_of_def args_without_conf_def conf_events_def flag_events_def
  strict_requested_def quiet_requested_def first_is_build_def bytes_in_def bytes_eq_def
  needs_config_file_of_def enter_root_def resolve_name_def path_exists_def node_def load_source_def colorful_of_def

theorem broken_conf_exits_1_witness:
  "load_source broken_conf_env sample_world ''./conf.py'' = Raises ''SyntaxError: invalid syntax''
   \<and> path_exists sample_world ''./conf.py''
   \<and> w_config sample_world = []
   \<and> main broken_conf_env sample_world (Some [''build'', ''--conf=./conf.py'']) =
       (Inl (SystemExit 1),
        [SetColorful True,
         LogInfo (''Using config file '' @ CHR 0x27 # ''./conf.py'' @ [CHR 0x27]),
         Chdir ''/site'', LoadSource ''./conf.py'',
         LogError (CHR 0x22 # ''./conf.py'' @ CHR 0x22 # '' cannot be parsed.''
                   @ CHR 0x0A # ''SyntaxError: invalid syntax'')],
        sample_world, None)"
proof -
  have a: "[''build'', ''--conf=./conf.py'']
             = args0_of broken_conf_env (Some [''build'', ''--conf=./conf.py''])"
    by (simp add: args0_of_def)
  have c: "conf_filename_of [''build'', ''--conf=./conf.py''] = ''./conf.py''"
    "args_without_conf [''build'', ''--conf=./conf.py''] = [''build'']"
    by (simp_all add: conf_filename_of_def args_without_conf_def)
  have w0: "sample_world = fst (enter_root broken_conf_env sample_world
              (needs_config_file_of (args_without_conf [''build'', ''--conf=./conf.py''])))"
    unfolding c by (simp add: prepare_defs sample_defs broken_conf_env_def)
  have l: "load_source broken_conf_env sample_world
             (conf_filename_of [''build'', ''--conf=./conf.py''])
           = Raises ''SyntaxError: invalid syntax''"
    unfolding c by (simp add: prepare_defs broken_conf_env_def sample_defs)
  have pe: "path_exists sample_world (conf_filename_of [''build'', ''--conf=./conf.py''])"
    unfolding c by (simp add: prepare_defs sample_defs)
  have ev: "[SetColorful True,
             LogInfo (''Using config file '' @ CHR 0x27 # ''./conf.py'' @ [CHR 0x27]),
             Chdir ''/site'', LoadSource ''./conf.py'',
             LogError (CHR 0x22 # ''./conf.py'' @ CHR 0x22 # '' cannot be parsed.''
                       @ CHR 0x0A # ''SyntaxError: invalid syntax'')]
          = flag_events broken_conf_env [''build'', ''--conf=./conf.py'']
            @ conf_events [''build'', ''--conf=./conf.py'']
            @ snd (enter_root broken_conf_env sample_world
                (needs_config_file_of (args_without_conf [''build'', ''--conf=./conf.py''])))
            @ [LoadSource (conf_filename_of [''build'', ''--conf=./conf.py'']),
               LogError ([CHR 0x22] @ conf_filename_of [''build'', ''--conf=./conf.py'']
                         @ [CHR 0x22] @ '' cannot be parsed.'' @ [CHR 0x0A]
                         @ ''SyntaxError: invalid syntax'')]"
    unfolding c by (simp add: prepare_defs sample_defs broken_conf_env_def)
  have c0: "w_config sample_world = []"
    by (simp add: sample_world_def)
  from broken_conf_exits_1 [OF a w0 l pe ev] l pe c0 show ?thesis
    unfolding c by blast
qed

text \<open>
  C3 as stated fails: a configuration file that exists and raises \<^verbatim>\<open>SystemExit\<close> (it calls
  \<^verbatim>\<open>sys.exit(7)\<close>) is not caught by \<^verbatim>\<open>except Exception\<close>; \<^verbatim>\<open>main\<close> ends with exit
  code 7 and logs no error.
\<close>

theorem conf_sys_exit_not_reported:
  "path_exists sample_world ''conf.py''
   \<and> load_source exiting_conf_env sample_world ''conf.py'' = RaisesSystemExit 7
   \<and> main exiting_conf_env sample_world (Some [''build'']) =
       (Inl (SystemExit 7), [SetColorful True, Chdir ''/site'', LoadSource ''conf.py''],
        sample_world, None)"
proof -
  have pe: "path_exists sample_world ''conf.py''"
    by (simp add: prepare_defs sample_defs)
  have l: "load_source exiting_conf_env sample_world ''conf.py'' = RaisesSystemExit 7"
    by (simp add: prepare_defs sample_defs exiting_conf_env_def)
  have p: "main_prepare exiting_conf_env sample_world (Some [''build'']) =
       (Inl (SystemExit 7), [SetColorful True, Chdir ''/site'', LoadSource ''conf.py''],
        sample_world)"
    by (simp add: main_prepare_def load_config_def Let_def prepare_defs sample_defs
        exiting_conf_env_def)
  show ?thesis using pe l p by (simp add: main_def)
qed

lemmas main_defs =
  main_prepare_def load_config_def start_invariant_def plugins_marker_def reserved_items_def
  inject_reserved_def Let_def

lemma prepare_check:
  "main_prepare always_invariant_env sample_world (Some [''check'']) =
     (Inr \<lparr>s_args = [''check''], s_colorful = True, s_quiet = False,
           s_conf_filename = ''conf.py'', s_invariant = False, s_freeze = False,
           s_site = \<lparr>configured = True, invariant = True, commands = plugin_commands\<rparr>\<rparr>,
      [SetColorful True, Chdir ''/site'', LoadSource ''conf.py'',
       SetConfig ''__colorful__'' (PBool True), SetConfig ''__invariant__'' (PBool False),
       SetConfig ''__quiet__'' (PBool False),
       SetConfig ''__configuration_filename__'' (PStr ''conf.py''),
       ConstructSite
         [(''BLOG_TITLE'', PStr ''Demo''), (''__colorful__'', PBool True),
          (''__invariant__'', PBool False), (''__quiet__'', PBool False),
          (''__configuration_filename__'', PStr ''conf.py'')]],
      \<lparr>w_cwd = ''/site'', w_fs = sample_fs,
        w_config =
         [(''BLOG_TITLE'', PStr ''Demo''), (''__colorful__'', PBool True),
          (''__invariant__'', PBool False), (''__quiet__'', PBool False),
          (''__configuration_filename__'', PStr ''conf.py'')]\<rparr>)"
  by (simp add: main_defs prepare_defs sample_defs always_invariant_env_def)

lemma run_check:
  "run always_invariant_env
     (DoitNikola_init \<lparr>configured = True, invariant = True, commands = plugin_commands\<rparr> False)
     [''check''] sample_fs =
   (Inr 0, [EngineRun [''check'']],
    \<lparr>configured = True, invariant = True, commands = plugin_commands\<rparr>, sample_fs)"
proof -
  have r: "resolve [''check''] = Inr ([''check''], [''check''])"
    by (simp add: resolve_def rewrite_empty_def rewrite_help_def rewrite_version_def
        version_spelling_def sys_decode_def)
  have g: "get_commands always_invariant_env
      (DoitNikola_init \<lparr>configured = True, invariant = True, commands = plugin_commands\<rparr> False)
      ''check'' = Some (PluginCommand ''check links and files in the generated site'')"
    by (simp add: get_commands_def DoitMain_get_commands_def DOIT_CMDS_def sample_env_def
        always_invariant_env_def doit_classes_def DoitNikola_init_def plugin_commands_def)
  show ?thesis
    by (simp add: run_def r g) (simp add: super_run_def always_invariant_env_def sample_env_def
        DoitNikola_init_def)
qed

theorem invariant_needs_started_freeze_witness:
  "\<not> first_is_build always_invariant_env [''check'']
   \<and> main always_invariant_env sample_world (Some [''check'']) =
       (Inl (UnboundLocalError ''freeze''),
        [SetColorful True, Chdir ''/site'', LoadSource ''conf.py'',
         SetConfig ''__colorful__'' (PBool True), SetConfig ''__invariant__'' (PBool False),
         SetConfig ''__quiet__'' (PBool False),
         SetConfig ''__configuration_filename__'' (PStr ''conf.py''),
         ConstructSite
           [(''BLOG_TITLE'', PStr ''Demo''), (''__colorful__'', PBool True),
            (''__invariant__'', PBool False), (''__quiet__'', PBool False),
            (''__configuration_filename__'', PStr ''conf.py'')],
         EngineRun [''check'']],
        \<lparr>w_cwd = ''/site'', w_fs = sample_fs,
          w_config =
           [(''BLOG_TITLE'', PStr ''Demo''), (''__colorful__'', PBool True),
            (''__invariant__'', PBool False), (''__quiet__'', PBool False),
            (''__configuration_filename__'', PStr ''conf.py'')]\<rparr>,
        Some \<lparr>configured = True, invariant = True, commands = plugin_commands\<rparr>)"
proof -
  have i: "invariant \<lparr>configured = True, invariant = True, commands = plugin_commands\<rparr>"
    by simp
  have b: "\<not> first_is_build always_invariant_env [''check'']"
    by (simp add: first_is_build_def bytes_eq_def)
  from invariant_needs_started_freeze [OF prepare_check, simplified, OF run_check i] b
  show ?thesis by simp
qed


lemma prepare_build_q:
  "main_prepare sample_env sample_world (Some [''build'', ''-q'']) =
     (Inr \<lparr>s_args = [''build'', ''-q''], s_colorful = True, s_quiet = True,
           s_conf_filename = ''conf.py'', s_invariant = False, s_freeze = False,
           s_site = \<lparr>configured = True, invariant = False, commands = plugin_commands\<rparr>\<rparr>,
      [SetColorful True, PushNullHandler, Chdir ''/site'', LoadSource ''conf.py'',
       SetConfig ''__colorful__'' (PBool True), SetConfig ''__invariant__'' (PBool False),
       SetConfig ''__quiet__'' (PBool True),
       SetConfig ''__configuration_filename__'' (PStr ''conf.py''),
       ConstructSite
         [(''BLOG_TITLE'', PStr ''Demo''), (''__colorful__'', PBool True),
          (''__invariant__'', PBool False), (''__quiet__'', PBool True),
          (''__configuration_filename__'', PStr ''conf.py'')]],
      \<lparr>w_cwd = ''/site'', w_fs = sample_fs,
        w_config =
         [(''BLOG_TITLE'', PStr ''Demo''), (''__colorful__'', PBool True),
          (''__invariant__'', PBool False), (''__quiet__'', PBool True),
          (''__configuration_filename__'', PStr ''conf.py'')]\<rparr>)"
  by (simp add: main_defs prepare_defs sample_defs)

lemma run_build_q:
  "run sample_env
     (DoitNikola_init \<lparr>configured = True, invariant = False, commands = plugin_commands\<rparr> True)
     [''build'', ''-q''] sample_fs =
   (Inr 0, [EngineRun [''build'', ''-q'']],
    \<lparr>configured = True, invariant = False, commands = plugin_commands\<rparr>, sample_fs)"
proof -
  have r: "resolve [''build'', ''-q''] = Inr ([''build'', ''-q''], [''build'', ''-q''])"
    by (simp add: resolve_def rewrite_empty_def rewrite_help_def rewrite_version_def
        version_spelling_def sys_decode_def)
  have g: "get_commands sample_env
      (DoitNikola_init \<lparr>configured = True, invariant = False, commands = plugin_commands\<rparr> True)
      ''build'' = Some (Builtin Build)"
    by (simp add: get_commands_def DoitMain_get_commands_def DOIT_CMDS_def sample_env_def
        doit_classes_def DoitNikola_init_def plugin_commands_def)
  have n: "nikola (DoitNikola_init
      \<lparr>configured = True, invariant = False, commands = plugin_commands\<rparr> True)
      = \<lparr>configured = True, invariant = False, commands = plugin_commands\<rparr>"
    by (simp add: DoitNikola_init_def)
  show ?thesis
    by (simp add: run_def r g n) (simp add: super_run_def sample_env_def n)
qed

lemma main_build_q:
  "main sample_env sample_world (Some [''build'', ''-q'']) =
     (Inr 0,
      [SetColorful True, PushNullHandler, Chdir ''/site'', LoadSource ''conf.py'',
       SetConfig ''__colorful__'' (PBool True), SetConfig ''__invariant__'' (PBool False),
       SetConfig ''__quiet__'' (PBool True),
       SetConfig ''__configuration_filename__'' (PStr ''conf.py''),
       ConstructSite
         [(''BLOG_TITLE'', PStr ''Demo''), (''__colorful__'', PBool True),
          (''__invariant__'', PBool False), (''__quiet__'', PBool True),
          (''__configuration_filename__'', PStr ''conf.py'')],
       EngineRun [''build'', ''-q'']],
      \<lparr>w_cwd = ''/site'', w_fs = sample_fs,
        w_config =
         [(''BLOG_TITLE'', PStr ''Demo''), (''__colorful__'', PBool True),
          (''__invariant__'', PBool False), (''__quiet__'', PBool True),
          (''__configuration_filename__'', PStr ''conf.py'')]\<rparr>,
      Some \<lparr>configured = True, invariant = False, commands = plugin_commands\<rparr>)"
  by (simp add: main_def prepare_build_q run_build_q main_finish_def)

theorem reserved_keys_injected_once_witness:
  "fst (main sample_env sample_world (Some [''build'', ''-q''])) = Inr 0
   \<and> (\<exists>before after.
        fst (snd (main sample_env sample_world (Some [''build'', ''-q'']))) =
          before
          @ [SetConfig ''__colorful__'' (PBool True), SetConfig ''__invariant__'' (PBool False),
             SetConfig ''__quiet__'' (PBool True),
             SetConfig ''__configuration_filename__'' (PStr ''conf.py'')]
          @ [ConstructSite
              [(''BLOG_TITLE'', PStr ''Demo''), (''__colorful__'', PBool True),
               (''__invariant__'', PBool False), (''__quiet__'', PBool True),
               (''__configuration_filename__'', PStr ''conf.py'')]]
          @ after
        \<and> LoadSource ''conf.py'' \<in> set before)"
proof -
  from reserved_keys_injected_once [OF prepare_build_q main_build_q refl refl]
  show ?thesis
    by (simp add: main_build_q reserved_items_def) blast
qed


text \<open>
  C8. Under Python 2, \<^verbatim>\<open>build -q\<close> and \<^verbatim>\<open>build --quiet\<close> select quiet mode
  (\<open>quiet_requested_python2\<close>), \<^verbatim>\<open>main\<close> passes the flag to the task loader
  (\<open>main_passes_quiet\<close>), and \<open>load_tasks\<close> gives verbosity 0 with the \<^verbatim>\<open>zero\<close> reporter
  in quiet mode and \<^verbatim>\<open>ExecutedOnlyReporter\<close> on \<^verbatim>\<open>sys.stderr\<close> otherwise
  (\<open>load_tasks_config\<close>). Under Python 3 the comparison with the byte-string literals is
  never true (\<open>quiet_requested_python3\<close>): for \<^verbatim>\<open>build -q\<close> the local \<^verbatim>\<open>quiet\<close> stays
  false, no null handler is pushed, \<^verbatim>\<open>__quiet__\<close> is false, and the loader built from it
  reports executed tasks on \<^verbatim>\<open>sys.stderr\<close>.
\<close>

theorem build_q_not_quiet_under_python3:
  "py3 python3_env
   \<and> \<not> quiet_requested python3_env [''build'', ''-q'']
   \<and> main_prepare python3_env sample_world (Some [''build'', ''-q'']) =
     (Inr \<lparr>s_args = [''build'', ''-q''], s_colorful = True, s_quiet = False,
           s_conf_filename = ''conf.py'', s_invariant = False, s_freeze = False,
           s_site = \<lparr>configured = True, invariant = False, commands = plugin_commands\<rparr>\<rparr>,
      [SetColorful True, Chdir ''/site'', LoadSource ''conf.py'',
       SetConfig ''__colorful__'' (PBool True), SetConfig ''__invariant__'' (PBool False),
       SetConfig ''__quiet__'' (PBool False),
       SetConfig ''__configuration_filename__'' (PStr ''conf.py''),
       ConstructSite
         [(''BLOG_TITLE'', PStr ''Demo''), (''__colorful__'', PBool True),
          (''__invariant__'', PBool False), (''__quiet__'', PBool False),
          (''__configuration_filename__'', PStr ''conf.py'')]],
      \<lparr>w_cwd = ''/site'', w_fs = sample_fs,
        w_config =
         [(''BLOG_TITLE'', PStr ''Demo''), (''__colorful__'', PBool True),
          (''__invariant__'', PBool False), (''__quiet__'', PBool False),
          (''__configuration_filename__'', PStr ''conf.py'')]\<rparr>)
   \<and> snd (fst (load_tasks python3_env
        (task_loader (DoitNikola_init
           \<lparr>configured = True, invariant = False, commands = plugin_commands\<rparr> False)))) =
       [(''reporter'', ExecutedOnlyReporter), (''outfile'', Stderr),
        (''default_tasks'', VStrList [''render_site'', ''post_render''])]"
proof -
  have p: "py3 python3_env" by (simp add: python3_env_def)
  have q: "\<not> quiet_requested python3_env [''build'', ''-q'']"
    by (simp add: quiet_requested_def bytes_in_def bytes_eq_def p)
  have m: "main_prepare python3_env sample_world (Some [''build'', ''-q'']) =
     (Inr \<lparr>s_args = [''build'', ''-q''], s_colorful = True, s_quiet = False,
           s_conf_filename = ''conf.py'', s_invariant = False, s_freeze = False,
           s_site = \<lparr>configured = True, invariant = False, commands = plugin_commands\<rparr>\<rparr>,
      [SetColorful True, Chdir ''/site'', LoadSource ''conf.py'',
       SetConfig ''__colorful__'' (PBool True), SetConfig ''__invariant__'' (PBool False),
       SetConfig ''__quiet__'' (PBool False),
       SetConfig ''__configuration_filename__'' (PStr ''conf.py''),
       ConstructSite
         [(''BLOG_TITLE'', PStr ''Demo''), (''__colorful__'', PBool True),
          (''__invariant__'', PBool False), (''__quiet__'', PBool False),
          (''__configuration_filename__'', PStr ''conf.py'')]],
      \<lparr>w_cwd = ''/site'', w_fs = sample_fs,
        w_config =
         [(''BLOG_TITLE'', PStr ''Demo''), (''__colorful__'', PBool True),
          (''__invariant__'', PBool False), (''__quiet__'', PBool False),
          (''__configuration_filename__'', PStr ''conf.py'')]\<rparr>)"
    by (simp add: main_defs prepare_defs sample_defs python3_env_def)
  have l: "snd (fst (load_tasks python3_env
        (task_loader (DoitNikola_init
           \<lparr>configured = True, invariant = False, commands = plugin_commands\<rparr> False)))) =
       [(''reporter'', ExecutedOnlyReporter), (''outfile'', Stderr),
        (''default_tasks'', VStrList [''render_site'', ''post_render''])]"
    by (simp add: load_tasks_def Let_def DoitNikola_init_def NikolaTaskLoader_init_def)
  show ?thesis using p q m l by blast
qed





end
